theory Spec2Isabelle
  imports Main
begin

section \<open>Go values seen by package dockerutil\<close>

text \<open>
  A Go \<open>error\<close> is identified with the message its \<open>Error()\<close> method returns; the nil
  error is \<open>None\<close>. A \<open>[]byte\<close> and a Go \<open>string\<close> are both byte sequences. A function
  with several results returns the tuple of them, so that what travels next to an error
  is part of the model. Interface values that the source uses without a nil test
  (the manifest given to \<open>GetManifestReferences\<close>, the reader given to
  \<open>ParseManifest\<close>) are taken non-nil; the one the source tests (the closer given to
  \<open>Close\<close>) is an option.
\<close>

type_synonym error = string
type_synonym bytes = string

text \<open>\<open>distribution.Descriptor\<close>: the fields the package reads or the library fills.\<close>

record Descriptor =
  DescMediaType :: string
  Size :: int
  Digest :: string

text \<open>
  \<open>manifest.Versioned\<close>, embedded in every deserialized manifest. The schema version is a
  Go \<open>int\<close>; the package compares it with 2 and prints it, and does no arithmetic on it.
\<close>

record Versioned =
  SchemaVersion :: int
  MediaType :: string

text \<open>
  A non-nil \<open>distribution.Manifest\<close>: the constructor is the dynamic type a type
  assertion looks at, the list is what \<open>References()\<close> returns. The nil interface value is
  \<open>None\<close>; an interface value that holds a nil pointer is outside the model.
\<close>

datatype Manifest =
    Schema2_DeserializedManifest Versioned "Descriptor list"
  | Ocischema_DeserializedManifest Versioned "Descriptor list"
  | Manifestlist_DeserializedManifestList Versioned "Descriptor list"
  | Other_Manifest "Descriptor list"

fun References :: "Manifest \<Rightarrow> Descriptor list" where
  "References (Schema2_DeserializedManifest v ds) = ds"
| "References (Ocischema_DeserializedManifest v ds) = ds"
| "References (Manifestlist_DeserializedManifestList v ds) = ds"
| "References (Other_Manifest ds) = ds"

text \<open>
  Modelled from the spec: \<open>core.Digest\<close> is declared outside the sources at hand. The
  specification gives a digest an algorithm and a hex value; \<open>Digest{}\<close> is the zero value
  of the struct, with both strings empty.
\<close>

record core_Digest =
  algo :: string
  hex :: string

definition zero_Digest :: core_Digest where
  "zero_Digest = \<lparr>algo = [], hex = []\<rparr>"

definition zero_Descriptor :: Descriptor where
  "zero_Descriptor = \<lparr>DescMediaType = [], Size = 0, Digest = []\<rparr>"

text \<open>
  The two collaborators of the package that are not part of it. \<open>distribution.UnmarshalManifest\<close>
  belongs to an external library and is a parameter of every function that calls it;
  \<open>core.ParseSHA256Digest\<close> is a parameter as well, and is instantiated by the model
  \<open>ParseSHA256Digest\<close> below where a statement needs to know what it returns.
\<close>

type_synonym UnmarshalManifest = "string \<Rightarrow> bytes \<Rightarrow> Manifest option \<times> Descriptor \<times> error option"
type_synonym ParseDigest = "string \<Rightarrow> core_Digest \<times> error option"
type_synonym parsed = "Manifest option \<times> core_Digest \<times> error option"

subsection \<open>Formatting\<close>

text \<open>
  The verb \<open>%d\<close> of \<open>fmt.Errorf\<close> on an \<open>int\<close>: decimal digits, with a sign when negative.
  \<open>digit\<close> is only applied to numbers below ten.
\<close>

definition digit :: "nat \<Rightarrow> char" where
  "digit n = ''0123456789'' ! n"

fun decimal :: "nat \<Rightarrow> string" where
  "decimal n = (if n < 10 then [digit n] else decimal (n div 10) @ [digit (n mod 10)])"

declare decimal.simps [simp del]

definition Sprintf_d :: "int \<Rightarrow> string" where
  "Sprintf_d i = (if i < 0 then CHR ''-'' # decimal (nat (- i)) else decimal (nat i))"

section \<open>The media types\<close>

definition v2ManifestType :: string where
  "v2ManifestType = ''application/vnd.docker.distribution.manifest.v2+json''"

definition v2ManifestListType :: string where
  "v2ManifestListType = ''application/vnd.docker.distribution.manifest.list.v2+json''"

definition ociManifestType :: string where
  "ociManifestType = ''application/vnd.oci.image.manifest.v1+json''"

definition ociIndexType :: string where
  "ociIndexType = ''application/vnd.oci.image.index.v1+json''"

text \<open>
  The library's constants \<open>schema2.MediaTypeManifest\<close> and
  \<open>manifestlist.MediaTypeManifestList\<close>, which the package passes for the two Docker
  variants. Their values are the first two supported media types of the specification;
  the package's tests compare the payload type of a parsed manifest list with both the
  constant and the literal.
\<close>

definition schema2_MediaTypeManifest :: string where
  "schema2_MediaTypeManifest = ''application/vnd.docker.distribution.manifest.v2+json''"

definition manifestlist_MediaTypeManifestList :: string where
  "manifestlist_MediaTypeManifestList = ''application/vnd.docker.distribution.manifest.list.v2+json''"

section \<open>The four variant parsers\<close>

definition ParseManifestV2 :: "UnmarshalManifest \<Rightarrow> ParseDigest \<Rightarrow> bytes \<Rightarrow> parsed" where
  "ParseManifestV2 unmarshal parseDigest bs =
     (case unmarshal schema2_MediaTypeManifest bs of (manifest, desc, err) \<Rightarrow>
       (case err of
          Some e \<Rightarrow> (None, zero_Digest, Some (''unmarshal manifest: '' @ e))
        | None \<Rightarrow>
           (case manifest of
              Some (Schema2_DeserializedManifest versioned refs) \<Rightarrow>
                (let version = SchemaVersion versioned in
                 if version \<noteq> 2
                 then (None, zero_Digest, Some (''unsupported manifest version: '' @ Sprintf_d version))
                 else (case parseDigest (Digest desc) of (d, err) \<Rightarrow>
                        (case err of
                           Some e \<Rightarrow> (None, zero_Digest, Some (''parse digest: '' @ e))
                         | None \<Rightarrow> (manifest, d, None))))
            | _ \<Rightarrow> (None, zero_Digest, Some ''expected schema2.DeserializedManifest''))))"

definition ParseManifestV2List :: "UnmarshalManifest \<Rightarrow> ParseDigest \<Rightarrow> bytes \<Rightarrow> parsed" where
  "ParseManifestV2List unmarshal parseDigest bs =
     (case unmarshal manifestlist_MediaTypeManifestList bs of (manifestList, desc, err) \<Rightarrow>
       (case err of
          Some e \<Rightarrow> (None, zero_Digest, Some (''unmarshal manifestlist: '' @ e))
        | None \<Rightarrow>
           (case manifestList of
              Some (Manifestlist_DeserializedManifestList versioned refs) \<Rightarrow>
                (let version = SchemaVersion versioned in
                 if version \<noteq> 2
                 then (None, zero_Digest, Some (''unsupported manifest list version: '' @ Sprintf_d version))
                 else (case parseDigest (Digest desc) of (d, err) \<Rightarrow>
                        (case err of
                           Some e \<Rightarrow> (None, zero_Digest, Some (''parse digest: '' @ e))
                         | None \<Rightarrow> (manifestList, d, None))))
            | _ \<Rightarrow> (None, zero_Digest, Some ''expected manifestlist.DeserializedManifestList''))))"

definition ParseOCIManifest :: "UnmarshalManifest \<Rightarrow> ParseDigest \<Rightarrow> bytes \<Rightarrow> parsed" where
  "ParseOCIManifest unmarshal parseDigest bs =
     (case unmarshal ociManifestType bs of (manifest, desc, err) \<Rightarrow>
       (case err of
          Some e \<Rightarrow> (None, zero_Digest, Some (''unmarshal oci manifest: '' @ e))
        | None \<Rightarrow>
           (case manifest of
              Some (Ocischema_DeserializedManifest versioned refs) \<Rightarrow>
                (let version = SchemaVersion versioned in
                 if version \<noteq> 2
                 then (None, zero_Digest, Some (''unsupported oci manifest version: '' @ Sprintf_d version))
                 else (case parseDigest (Digest desc) of (d, err) \<Rightarrow>
                        (case err of
                           Some e \<Rightarrow> (None, zero_Digest, Some (''parse digest: '' @ e))
                         | None \<Rightarrow> (manifest, d, None))))
            | _ \<Rightarrow> (None, zero_Digest, Some ''expected ocischema.DeserializedManifest''))))"

text \<open>
  \<open>ParseOCIIndex\<close> has no type assertion and no test of the schema version: what the
  library returns for the index media type goes to the digest parser as it is.
\<close>

definition ParseOCIIndex :: "UnmarshalManifest \<Rightarrow> ParseDigest \<Rightarrow> bytes \<Rightarrow> parsed" where
  "ParseOCIIndex unmarshal parseDigest bs =
     (case unmarshal ociIndexType bs of (index, desc, err) \<Rightarrow>
       (case err of
          Some e \<Rightarrow> (None, zero_Digest, Some (''unmarshal oci index: '' @ e))
        | None \<Rightarrow>
           (case parseDigest (Digest desc) of (d, err) \<Rightarrow>
             (case err of
                Some e \<Rightarrow> (None, zero_Digest, Some (''parse digest: '' @ e))
              | None \<Rightarrow> (index, d, None)))))"

section \<open>ParseManifest\<close>

text \<open>
  An \<open>io.Reader\<close> is modelled by what \<open>io.ReadAll\<close> gets out of it: the bytes read and
  the error that stopped the reading, if any.
\<close>

record Reader =
  content :: bytes
  failure :: "error option"

definition io_ReadAll :: "Reader \<Rightarrow> bytes \<times> error option" where
  "io_ReadAll r = (content r, failure r)"

text \<open>The four variants, named as the specification names them.\<close>

datatype Variant = V2Manifest | OCIManifest | V2ManifestList | OCIIndex

text \<open>
  \<open>ParseManifest\<close>, with one ghost result: the variant parsers it has called, in the
  order of the calls. The first component is what the Go function returns.
\<close>

definition ParseManifest_traced ::
    "UnmarshalManifest \<Rightarrow> ParseDigest \<Rightarrow> Reader \<Rightarrow> parsed \<times> Variant list" where
  "ParseManifest_traced unmarshal parseDigest r =
     (case io_ReadAll r of (b, err) \<Rightarrow>
       (case err of
          Some e \<Rightarrow> ((None, zero_Digest, Some (''read: '' @ e)), [])
        | None \<Rightarrow>
           (case ParseManifestV2 unmarshal parseDigest b of (manifest, d, err) \<Rightarrow>
             if err = None then ((manifest, d, err), [V2Manifest])
             else
               (case ParseOCIManifest unmarshal parseDigest b of (manifest, d, err) \<Rightarrow>
                 if err = None then ((manifest, d, err), [V2Manifest, OCIManifest])
                 else
                   (case ParseManifestV2List unmarshal parseDigest b of (manifest, d, err) \<Rightarrow>
                     if err = None then ((manifest, d, err), [V2Manifest, OCIManifest, V2ManifestList])
                     else (ParseOCIIndex unmarshal parseDigest b,
                           [V2Manifest, OCIManifest, V2ManifestList, OCIIndex]))))))"

definition ParseManifest :: "UnmarshalManifest \<Rightarrow> ParseDigest \<Rightarrow> Reader \<Rightarrow> parsed" where
  "ParseManifest unmarshal parseDigest r = fst (ParseManifest_traced unmarshal parseDigest r)"

definition ParseManifest_attempts :: "UnmarshalManifest \<Rightarrow> ParseDigest \<Rightarrow> Reader \<Rightarrow> Variant list" where
  "ParseManifest_attempts unmarshal parseDigest r = snd (ParseManifest_traced unmarshal parseDigest r)"

text \<open>The parse operation and the media type that belong to a variant.\<close>

fun ParseVariant :: "Variant \<Rightarrow> UnmarshalManifest \<Rightarrow> ParseDigest \<Rightarrow> bytes \<Rightarrow> parsed" where
  "ParseVariant V2Manifest = ParseManifestV2"
| "ParseVariant OCIManifest = ParseOCIManifest"
| "ParseVariant V2ManifestList = ParseManifestV2List"
| "ParseVariant OCIIndex = ParseOCIIndex"

fun requestedType :: "Variant \<Rightarrow> string" where
  "requestedType V2Manifest = schema2_MediaTypeManifest"
| "requestedType OCIManifest = ociManifestType"
| "requestedType V2ManifestList = manifestlist_MediaTypeManifestList"
| "requestedType OCIIndex = ociIndexType"

definition trialOrder :: "Variant list" where
  "trialOrder = [V2Manifest, OCIManifest, V2ManifestList, OCIIndex]"

text \<open>
  What the library has to deserialize for bytes that are well-formed under a variant: a
  manifest of the Go type of that variant (the parsers of the first three variants
  assert it; the library deserializes an OCI index into its manifest-list type) whose
  schema version is 2.
\<close>

fun wellFormedAs :: "Variant \<Rightarrow> Manifest \<Rightarrow> bool" where
  "wellFormedAs V2Manifest (Schema2_DeserializedManifest versioned refs) = (SchemaVersion versioned = 2)"
| "wellFormedAs OCIManifest (Ocischema_DeserializedManifest versioned refs) = (SchemaVersion versioned = 2)"
| "wellFormedAs V2ManifestList (Manifestlist_DeserializedManifestList versioned refs) = (SchemaVersion versioned = 2)"
| "wellFormedAs OCIIndex (Manifestlist_DeserializedManifestList versioned refs) = (SchemaVersion versioned = 2)"
| "wellFormedAs v m = False"

text \<open>The three results of a parse operation.\<close>

definition manifestOf :: "parsed \<Rightarrow> Manifest option" where
  "manifestOf p = fst p"

definition digestOf :: "parsed \<Rightarrow> core_Digest" where
  "digestOf p = fst (snd p)"

definition errOf :: "parsed \<Rightarrow> error option" where
  "errOf p = snd (snd p)"

section \<open>GetManifestReferences and GetSupportedManifestTypes\<close>

text \<open>
  The \<open>range\<close> loop over the references, with the slice \<open>refs\<close> it appends to. A nil
  slice is the empty list.
\<close>

fun referencesLoop :: "ParseDigest \<Rightarrow> Descriptor list \<Rightarrow> core_Digest list \<Rightarrow> core_Digest list \<times> error option" where
  "referencesLoop parseDigest [] refs = (refs, None)"
| "referencesLoop parseDigest (desc # rest) refs =
     (case parseDigest (Digest desc) of (d, err) \<Rightarrow>
       (case err of
          Some e \<Rightarrow> ([], Some (''parse digest: '' @ e))
        | None \<Rightarrow> referencesLoop parseDigest rest (refs @ [d])))"

definition GetManifestReferences :: "ParseDigest \<Rightarrow> Manifest \<Rightarrow> core_Digest list \<times> error option" where
  "GetManifestReferences parseDigest manifest = referencesLoop parseDigest (References manifest) []"

definition GetSupportedManifestTypes :: string where
  "GetSupportedManifestTypes =
     v2ManifestType @ '','' @ v2ManifestListType @ '','' @ ociManifestType @ '','' @ ociIndexType"

section \<open>closers.Close\<close>

text \<open>
  The \<open>Close\<close> method of a closer acts on the resources (\<open>'w\<close>) and returns an error or
  nil. The helper writes to the process logger: the state it runs in is the resources
  together with the log written so far. It has no result.
\<close>

datatype Level = DebugLevel | ErrorLevel

record LogEntry =
  level :: Level
  message :: string
  errorField :: error
  withStack :: bool

type_synonym 'w Closer = "'w \<Rightarrow> error option \<times> 'w"

definition Close :: "'w Closer option \<Rightarrow> 'w \<times> LogEntry list \<Rightarrow> 'w \<times> LogEntry list" where
  "Close closer st =
     (case closer of
        None \<Rightarrow> st
      | Some c \<Rightarrow>
         (case st of (w, logged) \<Rightarrow>
           (case c w of (err, w') \<Rightarrow>
             (case err of
                None \<Rightarrow> (w', logged)
              | Some errMsg \<Rightarrow>
                 if errMsg = ''file already closed'' \<or> errMsg = ''close: file already closed''
                 then (w', logged @
                        [\<lparr>level = DebugLevel,
                          message = ''attempted to close already closed file (this is usually harmless)'',
                          errorField = errMsg, withStack = False\<rparr>])
                 else (w', logged @
                        [\<lparr>level = ErrorLevel, message = ''failed to close a closer'',
                          errorField = errMsg, withStack = True\<rparr>])))))"

section \<open>core.ParseSHA256Digest\<close>

text \<open>The lowercase hex digits that the specification allows in the value of a digest.\<close>

definition isLowerHex :: "char \<Rightarrow> bool" where
  "isLowerHex c = (c \<in> set ''0123456789abcdef'')"

text \<open>
  Modelled from the spec: \<open>core.ParseSHA256Digest\<close> is not among the sources at hand. The
  specification gives a digest an algorithm and a hex value, asks for 64 lowercase hex
  characters for sha256, and calls a malformed digest string a \<open>DigestFormatError\<close>; the
  digest strings of the package's tests have the form \<open>sha256:<hex>\<close>. The model accepts
  exactly those strings, and returns the zero digest with its error.
\<close>

definition ParseSHA256Digest :: ParseDigest where
  "ParseSHA256Digest raw =
     (let a = takeWhile (\<lambda>c. c \<noteq> CHR '':'') raw;
          rest = dropWhile (\<lambda>c. c \<noteq> CHR '':'') raw
      in case rest of
           [] \<Rightarrow> (zero_Digest, Some ''invalid digest: expected <algo>:<hex>'')
         | colon # h \<Rightarrow>
             if a = ''sha256'' \<and> length h = 64 \<and> list_all isLowerHex h
             then (\<lparr>algo = ''sha256'', hex = h\<rparr>, None)
             else (zero_Digest, Some ''invalid sha256 digest''))"

section \<open>Test data\<close>

text \<open>
  Payloads in the style of the package's tests (one payload for each media type, in
  compact form), and an OCI index that differs from the fourth only in its schema
  version.
\<close>

definition testManifestBytes :: bytes where
  \<open>testManifestBytes = ''{"schemaVersion":2,"mediaType":"application/vnd.docker.distribution.manifest.v2+json","config":{"mediaType":"application/vnd.docker.container.image.v1+json","size":985,"digest":"sha256:1a9ec845ee94c202b2d5da74a24f0ed2058318bfa9879fa541efaecba272e86b"},"layers":[{"mediaType":"application/vnd.docker.image.rootfs.diff.tar.gzip","size":153263,"digest":"sha256:62d8908bee94c202b2d35224a221aaa2058318bfa9879fa541efaecba272331b"}]}''\<close>

definition testOciManifestBytes :: bytes where
  \<open>testOciManifestBytes = ''{"schemaVersion":2,"mediaType":"application/vnd.oci.image.manifest.v1+json","config":{"mediaType":"application/vnd.oci.image.config.v1+json","size":985,"digest":"sha256:1a9ec845ee94c202b2d5da74a24f0ed2058318bfa9879fa541efaecba272e86b"},"layers":[{"mediaType":"application/vnd.oci.image.layer.v1.tar+gzip","size":153263,"digest":"sha256:62d8908bee94c202b2d35224a221aaa2058318bfa9879fa541efaecba272331b"}]}''\<close>

definition testManifestListBytes :: bytes where
  \<open>testManifestListBytes = ''{"schemaVersion":2,"mediaType":"application/vnd.docker.distribution.manifest.list.v2+json","manifests":[{"mediaType":"application/vnd.docker.distribution.manifest.v2+json","size":985,"digest":"sha256:1a9ec845ee94c202b2d5da74a24f0ed2058318bfa9879fa541efaecba272e86b","platform":{"architecture":"amd64","os":"linux"}}]}''\<close>

definition testOciIndexBytes :: bytes where
  \<open>testOciIndexBytes = ''{"schemaVersion":2,"mediaType":"application/vnd.oci.image.index.v1+json","manifests":[{"mediaType":"application/vnd.oci.image.manifest.v1+json","size":985,"digest":"sha256:1a9ec845ee94c202b2d5da74a24f0ed2058318bfa9879fa541efaecba272e86b","platform":{"architecture":"amd64","os":"linux"}}]}''\<close>

definition testOciIndexVersion3Bytes :: bytes where
  \<open>testOciIndexVersion3Bytes = ''{"schemaVersion":3,"mediaType":"application/vnd.oci.image.index.v1+json","manifests":[{"mediaType":"application/vnd.oci.image.manifest.v1+json","size":985,"digest":"sha256:1a9ec845ee94c202b2d5da74a24f0ed2058318bfa9879fa541efaecba272e86b","platform":{"architecture":"amd64","os":"linux"}}]}''\<close>

definition testConfig :: "string \<Rightarrow> Descriptor" where
  "testConfig mt =
     \<lparr>DescMediaType = mt, Size = 985,
      Digest = ''sha256:1a9ec845ee94c202b2d5da74a24f0ed2058318bfa9879fa541efaecba272e86b''\<rparr>"

definition testLayer :: "string \<Rightarrow> Descriptor" where
  "testLayer mt =
     \<lparr>DescMediaType = mt, Size = 153263,
      Digest = ''sha256:62d8908bee94c202b2d35224a221aaa2058318bfa9879fa541efaecba272331b''\<rparr>"

text \<open>
  A stand-in for the external library on these payloads: each is deserialized under the
  media type it declares, into the Go type the library uses for it (an OCI index becomes
  a \<open>DeserializedManifestList\<close>), with the descriptor of the bytes (their sha256 digest and
  length); the schema version is read and not judged. Any other request is an error. It
  serves to run the package's functions on concrete inputs.
\<close>

definition testUnmarshal :: UnmarshalManifest where
  "testUnmarshal ctHeader p =
     (if ctHeader = schema2_MediaTypeManifest \<and> p = testManifestBytes then
        (Some (Schema2_DeserializedManifest \<lparr>SchemaVersion = 2, MediaType = v2ManifestType\<rparr>
                 [testConfig ''application/vnd.docker.container.image.v1+json'',
                  testLayer ''application/vnd.docker.image.rootfs.diff.tar.gzip'']),
         \<lparr>DescMediaType = schema2_MediaTypeManifest, Size = 426,
          Digest = ''sha256:12cdbca94c82588f2b26222d35ad73076200e10e7c17b238dd3d83809772f285''\<rparr>,
         None)
      else if ctHeader = ociManifestType \<and> p = testOciManifestBytes then
        (Some (Ocischema_DeserializedManifest \<lparr>SchemaVersion = 2, MediaType = ociManifestType\<rparr>
                 [testConfig ''application/vnd.oci.image.config.v1+json'',
                  testLayer ''application/vnd.oci.image.layer.v1.tar+gzip'']),
         \<lparr>DescMediaType = ociManifestType, Size = 404,
          Digest = ''sha256:ca743fb2633c9ae3e8ae2f77687c45de5d76181b4bd0a02dbb4f57e3c4d5c4f3''\<rparr>,
         None)
      else if ctHeader = manifestlist_MediaTypeManifestList \<and> p = testManifestListBytes then
        (Some (Manifestlist_DeserializedManifestList \<lparr>SchemaVersion = 2, MediaType = v2ManifestListType\<rparr>
                 [testConfig v2ManifestType]),
         \<lparr>DescMediaType = manifestlist_MediaTypeManifestList, Size = 317,
          Digest = ''sha256:549f0782ead9c27bd178524017f23b4060133aeb0c8641ab7d918a34c3cbbfab''\<rparr>,
         None)
      else if ctHeader = ociIndexType \<and> p = testOciIndexBytes then
        (Some (Manifestlist_DeserializedManifestList \<lparr>SchemaVersion = 2, MediaType = ociIndexType\<rparr>
                 [testConfig ociManifestType]),
         \<lparr>DescMediaType = ociIndexType, Size = 289,
          Digest = ''sha256:5351994b595de45b707c09b55659a861e0462921247e9a47ff1d185151b964c6''\<rparr>,
         None)
      else if ctHeader = ociIndexType \<and> p = testOciIndexVersion3Bytes then
        (Some (Manifestlist_DeserializedManifestList \<lparr>SchemaVersion = 3, MediaType = ociIndexType\<rparr>
                 [testConfig ociManifestType]),
         \<lparr>DescMediaType = ociIndexType, Size = 289,
          Digest = ''sha256:2e257f1294c160390923841add1519679a6d08e15b9c05f84a1a4abe7e015944''\<rparr>,
         None)
      else (None, zero_Descriptor, Some ''payload is not a manifest of the requested media type''))"

definition testReader :: "bytes \<Rightarrow> Reader" where
  "testReader p = \<lparr>content = p, failure = None\<rparr>"

text \<open>
  Two closers over one resource, a flag that says whether the file is open: the first
  closes the file and reports that the data did not reach the disk, the second is called
  on a file that is closed already.
\<close>

definition testFlushFailure :: "bool Closer" where
  "testFlushFailure isOpen = (Some ''close /data/blob: input/output error'', False)"

definition testAlreadyClosed :: "bool Closer" where
  "testAlreadyClosed isOpen = (Some ''file already closed'', isOpen)"

section \<open>Auxiliary facts\<close>

lemmas result_defs = errOf_def manifestOf_def digestOf_def

lemmas test_defs = testUnmarshal_def testManifestBytes_def testOciManifestBytes_def
  testManifestListBytes_def testOciIndexBytes_def testOciIndexVersion3Bytes_def
  schema2_MediaTypeManifest_def manifestlist_MediaTypeManifestList_def
  v2ManifestType_def v2ManifestListType_def ociManifestType_def ociIndexType_def
  testConfig_def testLayer_def zero_Descriptor_def

lemma ParseManifestV2_rejection:
  "errOf (ParseManifestV2 um pd b) \<noteq> None \<Longrightarrow>
   manifestOf (ParseManifestV2 um pd b) = None \<and> digestOf (ParseManifestV2 um pd b) = zero_Digest"
  by (auto simp: ParseManifestV2_def result_defs Let_def
      split: prod.splits option.splits Manifest.splits if_splits)

lemma ParseManifestV2List_rejection:
  "errOf (ParseManifestV2List um pd b) \<noteq> None \<Longrightarrow>
   manifestOf (ParseManifestV2List um pd b) = None \<and> digestOf (ParseManifestV2List um pd b) = zero_Digest"
  by (auto simp: ParseManifestV2List_def result_defs Let_def
      split: prod.splits option.splits Manifest.splits if_splits)

lemma ParseOCIManifest_rejection:
  "errOf (ParseOCIManifest um pd b) \<noteq> None \<Longrightarrow>
   manifestOf (ParseOCIManifest um pd b) = None \<and> digestOf (ParseOCIManifest um pd b) = zero_Digest"
  by (auto simp: ParseOCIManifest_def result_defs Let_def
      split: prod.splits option.splits Manifest.splits if_splits)

lemma ParseOCIIndex_rejection:
  "errOf (ParseOCIIndex um pd b) \<noteq> None \<Longrightarrow>
   manifestOf (ParseOCIIndex um pd b) = None \<and> digestOf (ParseOCIIndex um pd b) = zero_Digest"
  by (auto simp: ParseOCIIndex_def result_defs
      split: prod.splits option.splits)

lemma ParseVariant_rejection:
  "errOf (ParseVariant v um pd b) \<noteq> None \<Longrightarrow>
   manifestOf (ParseVariant v um pd b) = None \<and> digestOf (ParseVariant v um pd b) = zero_Digest"
  by (cases v)
     (simp_all add: ParseManifestV2_rejection ParseManifestV2List_rejection
        ParseOCIManifest_rejection ParseOCIIndex_rejection)

text \<open>A variant parser that returns no error has asked the library for its own media type, got
  the manifest it returns, and got its digest from the digest parser.\<close>

lemma ParseVariant_success:
  "errOf (ParseVariant v um pd b) = None \<Longrightarrow>
   \<exists>desc. um (requestedType v) b = (manifestOf (ParseVariant v um pd b), desc, None) \<and>
          pd (Digest desc) = (digestOf (ParseVariant v um pd b), None)"
  by (cases v)
     (auto simp: ParseManifestV2_def ParseManifestV2List_def ParseOCIManifest_def ParseOCIIndex_def
        result_defs Let_def split: prod.splits option.splits Manifest.splits if_splits)

lemma ParseVariant_unmarshal_error:
  "um (requestedType v) b = (m, desc, Some e) \<Longrightarrow> errOf (ParseVariant v um pd b) \<noteq> None"
  by (cases v)
     (auto simp: ParseManifestV2_def ParseManifestV2List_def ParseOCIManifest_def ParseOCIIndex_def
        result_defs)

lemma ParseManifest_cases:
  "ParseManifest um pd r =
     (case failure r of
        Some e \<Rightarrow> (None, zero_Digest, Some (''read: '' @ e))
      | None \<Rightarrow>
         if errOf (ParseManifestV2 um pd (content r)) = None then ParseManifestV2 um pd (content r)
         else if errOf (ParseOCIManifest um pd (content r)) = None then ParseOCIManifest um pd (content r)
         else if errOf (ParseManifestV2List um pd (content r)) = None then ParseManifestV2List um pd (content r)
         else ParseOCIIndex um pd (content r))"
  by (auto simp: ParseManifest_def ParseManifest_traced_def io_ReadAll_def errOf_def
      split: prod.splits option.splits)

lemma ParseManifest_attempts_cases:
  "ParseManifest_attempts um pd r =
     (case failure r of
        Some e \<Rightarrow> []
      | None \<Rightarrow>
         if errOf (ParseManifestV2 um pd (content r)) = None then [V2Manifest]
         else if errOf (ParseOCIManifest um pd (content r)) = None then [V2Manifest, OCIManifest]
         else if errOf (ParseManifestV2List um pd (content r)) = None
              then [V2Manifest, OCIManifest, V2ManifestList]
         else [V2Manifest, OCIManifest, V2ManifestList, OCIIndex])"
  by (auto simp: ParseManifest_attempts_def ParseManifest_traced_def io_ReadAll_def errOf_def
      split: prod.splits option.splits)

lemma ParseSHA256Digest_success:
  "ParseSHA256Digest raw = (d, None) \<Longrightarrow>
   algo d = ''sha256'' \<and> length (hex d) = 64 \<and> list_all isLowerHex (hex d) \<and> raw = ''sha256:'' @ hex d"
proof -
  assume ok: "ParseSHA256Digest raw = (d, None)"
  define a where "a = takeWhile (\<lambda>c. c \<noteq> CHR '':'') raw"
  define rest where "rest = dropWhile (\<lambda>c. c \<noteq> CHR '':'') raw"
  have raw: "raw = a @ rest"
    by (simp add: a_def rest_def)
  from ok obtain colon h where rest: "rest = colon # h"
    and cond: "a = ''sha256'' \<and> length h = 64 \<and> list_all isLowerHex h"
    and d: "d = \<lparr>algo = ''sha256'', hex = h\<rparr>"
    unfolding ParseSHA256Digest_def a_def [symmetric] rest_def [symmetric] Let_def
    by (auto split: list.splits if_splits)
  have "colon = hd (dropWhile (\<lambda>c. c \<noteq> CHR '':'') raw)"
    using rest by (simp add: rest_def)
  moreover have "dropWhile (\<lambda>c. c \<noteq> CHR '':'') raw \<noteq> []"
    using rest by (simp add: rest_def)
  ultimately have "colon = CHR '':''"
    using hd_dropWhile [of "\<lambda>c. c \<noteq> CHR '':''" raw] by simp
  with raw rest cond d show ?thesis by simp
qed

lemma ParseSHA256Digest_failure:
  "ParseSHA256Digest raw = (d, Some e) \<Longrightarrow> d = zero_Digest"
  by (auto simp: ParseSHA256Digest_def Let_def split: list.splits if_splits)

lemma referencesLoop_find:
  "referencesLoop pd ds acc =
     (case find (\<lambda>desc. snd (pd (Digest desc)) \<noteq> None) ds of
        None \<Rightarrow> (acc @ map (\<lambda>desc. fst (pd (Digest desc))) ds, None)
      | Some bad \<Rightarrow> ([], Some (''parse digest: '' @ the (snd (pd (Digest bad))))))"
  by (induction ds arbitrary: acc) (auto split: prod.splits option.splits)

section \<open>Evaluation on the test data\<close>

lemma testUnmarshal_list:
  "testUnmarshal schema2_MediaTypeManifest testManifestListBytes =
     (None, zero_Descriptor, Some ''payload is not a manifest of the requested media type'')"
  "testUnmarshal ociManifestType testManifestListBytes =
     (None, zero_Descriptor, Some ''payload is not a manifest of the requested media type'')"
  "testUnmarshal manifestlist_MediaTypeManifestList testManifestListBytes =
     (Some (Manifestlist_DeserializedManifestList \<lparr>SchemaVersion = 2, MediaType = v2ManifestListType\<rparr>
              [testConfig v2ManifestType]),
      \<lparr>DescMediaType = manifestlist_MediaTypeManifestList, Size = 317,
       Digest = ''sha256:549f0782ead9c27bd178524017f23b4060133aeb0c8641ab7d918a34c3cbbfab''\<rparr>,
      None)"
  by (simp_all add: test_defs)

lemma testUnmarshal_index:
  "testUnmarshal schema2_MediaTypeManifest testOciIndexBytes =
     (None, zero_Descriptor, Some ''payload is not a manifest of the requested media type'')"
  "testUnmarshal ociManifestType testOciIndexBytes =
     (None, zero_Descriptor, Some ''payload is not a manifest of the requested media type'')"
  "testUnmarshal manifestlist_MediaTypeManifestList testOciIndexBytes =
     (None, zero_Descriptor, Some ''payload is not a manifest of the requested media type'')"
  "testUnmarshal ociIndexType testOciIndexBytes =
     (Some (Manifestlist_DeserializedManifestList \<lparr>SchemaVersion = 2, MediaType = ociIndexType\<rparr>
              [testConfig ociManifestType]),
      \<lparr>DescMediaType = ociIndexType, Size = 289,
       Digest = ''sha256:5351994b595de45b707c09b55659a861e0462921247e9a47ff1d185151b964c6''\<rparr>,
      None)"
  by (simp_all add: test_defs)

lemma ParseSHA256Digest_test:
  "ParseSHA256Digest ''sha256:549f0782ead9c27bd178524017f23b4060133aeb0c8641ab7d918a34c3cbbfab'' =
     (\<lparr>algo = ''sha256'', hex = ''549f0782ead9c27bd178524017f23b4060133aeb0c8641ab7d918a34c3cbbfab''\<rparr>, None)"
  "ParseSHA256Digest ''sha256:5351994b595de45b707c09b55659a861e0462921247e9a47ff1d185151b964c6'' =
     (\<lparr>algo = ''sha256'', hex = ''5351994b595de45b707c09b55659a861e0462921247e9a47ff1d185151b964c6''\<rparr>, None)"
  "ParseSHA256Digest ''sha256:1a9ec845ee94c202b2d5da74a24f0ed2058318bfa9879fa541efaecba272e86b'' =
     (\<lparr>algo = ''sha256'', hex = ''1a9ec845ee94c202b2d5da74a24f0ed2058318bfa9879fa541efaecba272e86b''\<rparr>, None)"
  "ParseSHA256Digest ''sha256:62d8908bee94c202b2d35224a221aaa2058318bfa9879fa541efaecba272331b'' =
     (\<lparr>algo = ''sha256'', hex = ''62d8908bee94c202b2d35224a221aaa2058318bfa9879fa541efaecba272331b''\<rparr>, None)"
  by (simp_all add: ParseSHA256Digest_def isLowerHex_def)

lemma Parse_test_list:
  "ParseManifestV2 testUnmarshal ParseSHA256Digest testManifestListBytes =
     (None, zero_Digest, Some ''unmarshal manifest: payload is not a manifest of the requested media type'')"
  "ParseOCIManifest testUnmarshal ParseSHA256Digest testManifestListBytes =
     (None, zero_Digest, Some ''unmarshal oci manifest: payload is not a manifest of the requested media type'')"
  "ParseManifestV2List testUnmarshal ParseSHA256Digest testManifestListBytes =
     (Some (Manifestlist_DeserializedManifestList \<lparr>SchemaVersion = 2, MediaType = v2ManifestListType\<rparr>
              [testConfig v2ManifestType]),
      \<lparr>algo = ''sha256'', hex = ''549f0782ead9c27bd178524017f23b4060133aeb0c8641ab7d918a34c3cbbfab''\<rparr>,
      None)"
  by (simp_all add: ParseManifestV2_def ParseOCIManifest_def ParseManifestV2List_def
      testUnmarshal_list ParseSHA256Digest_test)

lemma Parse_test_index:
  "ParseManifestV2 testUnmarshal ParseSHA256Digest testOciIndexBytes =
     (None, zero_Digest, Some ''unmarshal manifest: payload is not a manifest of the requested media type'')"
  "ParseOCIManifest testUnmarshal ParseSHA256Digest testOciIndexBytes =
     (None, zero_Digest, Some ''unmarshal oci manifest: payload is not a manifest of the requested media type'')"
  "ParseManifestV2List testUnmarshal ParseSHA256Digest testOciIndexBytes =
     (None, zero_Digest, Some ''unmarshal manifestlist: payload is not a manifest of the requested media type'')"
  "ParseOCIIndex testUnmarshal ParseSHA256Digest testOciIndexBytes =
     (Some (Manifestlist_DeserializedManifestList \<lparr>SchemaVersion = 2, MediaType = ociIndexType\<rparr>
              [testConfig ociManifestType]),
      \<lparr>algo = ''sha256'', hex = ''5351994b595de45b707c09b55659a861e0462921247e9a47ff1d185151b964c6''\<rparr>,
      None)"
  by (simp_all add: ParseManifestV2_def ParseOCIManifest_def ParseManifestV2List_def ParseOCIIndex_def
      testUnmarshal_index ParseSHA256Digest_test)

text \<open>When the bytes are read, what \<open>ParseManifest\<close> returns is the result of one of the four parsers;
  when they are not, no parser is called.\<close>

lemma ParseManifest_read_failure:
  "failure r = Some e \<Longrightarrow>
   ParseManifest um pd r = (None, zero_Digest, Some (''read: '' @ e)) \<and> ParseManifest_attempts um pd r = []"
  by (simp add: ParseManifest_cases ParseManifest_attempts_cases)

lemma ParseManifest_some_variant:
  assumes "failure r = None"
  shows "\<exists>v. ParseManifest um pd r = ParseVariant v um pd (content r)"
proof -
  have "ParseManifest um pd r = ParseVariant V2Manifest um pd (content r) \<or>
        ParseManifest um pd r = ParseVariant OCIManifest um pd (content r) \<or>
        ParseManifest um pd r = ParseVariant V2ManifestList um pd (content r) \<or>
        ParseManifest um pd r = ParseVariant OCIIndex um pd (content r)"
    using assms by (simp add: ParseManifest_cases)
  then show ?thesis by blast
qed

section \<open>The version gate (C1)\<close>

text \<open>
  The three parsers with a type assertion return no error only for a manifest of their
  own Go type whose schema version is 2.
\<close>

lemma ParseManifestV2_version_gate:
  "errOf (ParseManifestV2 um pd b) = None \<Longrightarrow>
   \<exists>v refs. manifestOf (ParseManifestV2 um pd b) = Some (Schema2_DeserializedManifest v refs) \<and>
            SchemaVersion v = 2"
  by (auto simp: ParseManifestV2_def result_defs Let_def
      split: prod.splits option.splits Manifest.splits if_splits)

lemma ParseOCIManifest_version_gate:
  "errOf (ParseOCIManifest um pd b) = None \<Longrightarrow>
   \<exists>v refs. manifestOf (ParseOCIManifest um pd b) = Some (Ocischema_DeserializedManifest v refs) \<and>
            SchemaVersion v = 2"
  by (auto simp: ParseOCIManifest_def result_defs Let_def
      split: prod.splits option.splits Manifest.splits if_splits)

lemma ParseManifestV2List_version_gate:
  "errOf (ParseManifestV2List um pd b) = None \<Longrightarrow>
   \<exists>v refs. manifestOf (ParseManifestV2List um pd b) = Some (Manifestlist_DeserializedManifestList v refs) \<and>
            SchemaVersion v = 2"
  by (auto simp: ParseManifestV2List_def result_defs Let_def
      split: prod.splits option.splits Manifest.splits if_splits)

lemma ParseManifestV2List_rejects_version:
  "um manifestlist_MediaTypeManifestList b =
     (Some (Manifestlist_DeserializedManifestList v refs), desc, None) \<Longrightarrow>
   SchemaVersion v \<noteq> 2 \<Longrightarrow>
   ParseManifestV2List um pd b =
     (None, zero_Digest, Some (''unsupported manifest list version: '' @ Sprintf_d (SchemaVersion v)))"
  by (simp add: ParseManifestV2List_def)

lemma Sprintf_d_3: "Sprintf_d 3 = ''3''"
  by (simp add: Sprintf_d_def decimal.simps digit_def)

text \<open>
  \<open>ParseOCIIndex\<close> returns whatever the library deserialized under the index media type,
  as soon as the digest of the bytes parses: the schema version is never read.
\<close>

lemma ParseOCIIndex_no_version_gate:
  "um ociIndexType b = (index, desc, None) \<Longrightarrow> pd (Digest desc) = (d, None) \<Longrightarrow>
   ParseOCIIndex um pd b = (index, d, None)"
  by (simp add: ParseOCIIndex_def)

lemma testUnmarshal_version3:
  "testUnmarshal ociIndexType testOciIndexVersion3Bytes =
     (Some (Manifestlist_DeserializedManifestList \<lparr>SchemaVersion = 3, MediaType = ociIndexType\<rparr>
              [testConfig ociManifestType]),
      \<lparr>DescMediaType = ociIndexType, Size = 289,
       Digest = ''sha256:2e257f1294c160390923841add1519679a6d08e15b9c05f84a1a4abe7e015944''\<rparr>,
      None)"
  by (simp add: test_defs)

lemma ParseSHA256Digest_version3:
  "ParseSHA256Digest ''sha256:2e257f1294c160390923841add1519679a6d08e15b9c05f84a1a4abe7e015944'' =
     (\<lparr>algo = ''sha256'', hex = ''2e257f1294c160390923841add1519679a6d08e15b9c05f84a1a4abe7e015944''\<rparr>, None)"
  by (simp add: ParseSHA256Digest_def isLowerHex_def)

text \<open>
  C1. The claim: a payload that declares one of the four supported media types and has a
  schema version other than 2 is rejected with an error by the parse operation of that
  media type. The three sibling parsers do so (the lemmas above); \<open>ParseOCIIndex\<close> does
  not. On an OCI index with \<open>"schemaVersion":3\<close>, which the library deserializes under the
  index media type, it returns the manifest and its sha256 digest with a nil error.
\<close>

theorem ParseOCIIndex_schemaVersion3_accepted:
  "ParseOCIIndex testUnmarshal ParseSHA256Digest testOciIndexVersion3Bytes =
     (Some (Manifestlist_DeserializedManifestList \<lparr>SchemaVersion = 3, MediaType = ociIndexType\<rparr>
              [testConfig ociManifestType]),
      \<lparr>algo = ''sha256'', hex = ''2e257f1294c160390923841add1519679a6d08e15b9c05f84a1a4abe7e015944''\<rparr>,
      None)"
  by (simp add: ParseOCIIndex_def testUnmarshal_version3 ParseSHA256Digest_version3)

section \<open>The error when every attempt fails (C2)\<close>

text \<open>The bytes \<open>not json\<close> are rejected by the library under every media type.\<close>

lemma testUnmarshal_not_json:
  "testUnmarshal ctHeader ''not json'' =
     (None, zero_Descriptor, Some ''payload is not a manifest of the requested media type'')"
  by (simp add: testUnmarshal_def testManifestBytes_def testOciManifestBytes_def
      testManifestListBytes_def testOciIndexBytes_def testOciIndexVersion3Bytes_def)

lemma ParseVariant_not_json:
  "ParseManifestV2 testUnmarshal pd ''not json'' =
     (None, zero_Digest, Some ''unmarshal manifest: payload is not a manifest of the requested media type'')"
  "ParseOCIManifest testUnmarshal pd ''not json'' =
     (None, zero_Digest, Some ''unmarshal oci manifest: payload is not a manifest of the requested media type'')"
  "ParseManifestV2List testUnmarshal pd ''not json'' =
     (None, zero_Digest, Some ''unmarshal manifestlist: payload is not a manifest of the requested media type'')"
  "ParseOCIIndex testUnmarshal pd ''not json'' =
     (None, zero_Digest, Some ''unmarshal oci index: payload is not a manifest of the requested media type'')"
  by (simp_all add: ParseManifestV2_def ParseOCIManifest_def ParseManifestV2List_def ParseOCIIndex_def
      testUnmarshal_not_json)

text \<open>
  C2, as claimed: when all four attempts fail, \<open>ParseManifest\<close> returns one aggregate
  error that does not tell which attempt failed last, and that is not the error of the
  fourth attempt. On \<open>not json\<close> all four attempts fail, and the error returned is the
  error of \<open>ParseOCIIndex\<close>, whose message names the OCI index attempt.
\<close>

theorem ParseManifest_aggregate_error_counterexample:
  "errOf (ParseManifestV2 testUnmarshal ParseSHA256Digest ''not json'') \<noteq> None \<and>
   errOf (ParseOCIManifest testUnmarshal ParseSHA256Digest ''not json'') \<noteq> None \<and>
   errOf (ParseManifestV2List testUnmarshal ParseSHA256Digest ''not json'') \<noteq> None \<and>
   errOf (ParseOCIIndex testUnmarshal ParseSHA256Digest ''not json'') \<noteq> None \<and>
   errOf (ParseManifest testUnmarshal ParseSHA256Digest (testReader ''not json'')) =
     errOf (ParseOCIIndex testUnmarshal ParseSHA256Digest ''not json'') \<and>
   errOf (ParseManifest testUnmarshal ParseSHA256Digest (testReader ''not json'')) =
     Some ''unmarshal oci index: payload is not a manifest of the requested media type''"
  by (simp add: ParseManifest_cases ParseVariant_not_json testReader_def errOf_def)

text \<open>
  C2, amended: when the bytes are read and all four attempts fail, \<open>ParseManifest\<close>
  returns the result of the fourth attempt, \<open>ParseOCIIndex\<close>: a nil manifest, the zero
  digest and the error of that attempt. The package has no aggregate error.
\<close>

theorem ParseManifest_returns_last_error:
  assumes "failure r = None"
    and "errOf (ParseManifestV2 um pd (content r)) \<noteq> None"
    and "errOf (ParseOCIManifest um pd (content r)) \<noteq> None"
    and "errOf (ParseManifestV2List um pd (content r)) \<noteq> None"
    and "errOf (ParseOCIIndex um pd (content r)) \<noteq> None"
  shows "ParseManifest um pd r = ParseOCIIndex um pd (content r) \<and>
         ParseManifest um pd r = (None, zero_Digest, errOf (ParseOCIIndex um pd (content r)))"
proof -
  have eq: "ParseManifest um pd r = ParseOCIIndex um pd (content r)"
    using assms(1-4) by (auto simp: ParseManifest_cases)
  moreover have "ParseOCIIndex um pd (content r) = (None, zero_Digest, errOf (ParseOCIIndex um pd (content r)))"
    using ParseOCIIndex_rejection [OF assms(5)]
    by (simp add: result_defs prod_eq_iff)
  ultimately show ?thesis by simp
qed

theorem ParseManifest_returns_last_error_witness:
  "failure (testReader ''not json'') = None \<and>
   errOf (ParseManifestV2 testUnmarshal ParseSHA256Digest ''not json'') \<noteq> None \<and>
   errOf (ParseOCIManifest testUnmarshal ParseSHA256Digest ''not json'') \<noteq> None \<and>
   errOf (ParseManifestV2List testUnmarshal ParseSHA256Digest ''not json'') \<noteq> None \<and>
   errOf (ParseOCIIndex testUnmarshal ParseSHA256Digest ''not json'') \<noteq> None \<and>
   ParseManifest testUnmarshal ParseSHA256Digest (testReader ''not json'') =
     (None, zero_Digest, Some ''unmarshal oci index: payload is not a manifest of the requested media type'')"
  using ParseManifest_returns_last_error [of "testReader ''not json''" testUnmarshal ParseSHA256Digest]
  by (simp add: ParseVariant_not_json testReader_def errOf_def)

section \<open>The order of the attempts (C3)\<close>

text \<open>
  C3. \<open>ParseManifest\<close> tries the four schemas in the fixed order V2Manifest, OCIManifest,
  V2ManifestList, OCIIndex and returns the result of the first attempt that succeeds,
  without trying the later ones. For bytes that are read: the parsers called are a
  non-empty initial segment of that order; every one but the last called has failed; the
  result is the result of the last one called; and either that result is a success or
  all four were called.
\<close>

theorem ParseManifest_trial_order:
  assumes "failure r = None"
  shows "ParseManifest_attempts um pd r \<noteq> [] \<and>
         ParseManifest_attempts um pd r = take (length (ParseManifest_attempts um pd r)) trialOrder \<and>
         ParseManifest um pd r = ParseVariant (last (ParseManifest_attempts um pd r)) um pd (content r) \<and>
         list_all (\<lambda>v. errOf (ParseVariant v um pd (content r)) \<noteq> None)
           (butlast (ParseManifest_attempts um pd r)) \<and>
         (errOf (ParseManifest um pd r) = None \<or> ParseManifest_attempts um pd r = trialOrder)"
proof (cases "errOf (ParseManifestV2 um pd (content r)) = None")
  case True
  with assms show ?thesis
    by (auto simp: ParseManifest_cases ParseManifest_attempts_cases trialOrder_def)
next
  case v2: False
  show ?thesis
  proof (cases "errOf (ParseOCIManifest um pd (content r)) = None")
    case True
    with assms v2 show ?thesis
      by (auto simp: ParseManifest_cases ParseManifest_attempts_cases trialOrder_def)
  next
    case oci: False
    show ?thesis
    proof (cases "errOf (ParseManifestV2List um pd (content r)) = None")
      case True
      with assms v2 oci show ?thesis
        by (auto simp: ParseManifest_cases ParseManifest_attempts_cases trialOrder_def)
    next
      case False
      with assms v2 oci show ?thesis
        by (auto simp: ParseManifest_cases ParseManifest_attempts_cases trialOrder_def)
    qed
  qed
qed

text \<open>On the manifest list of the test data the third attempt succeeds and the fourth is not made.\<close>

theorem ParseManifest_trial_order_witness:
  "failure (testReader testManifestListBytes) = None \<and>
   ParseManifest_attempts testUnmarshal ParseSHA256Digest (testReader testManifestListBytes) =
     [V2Manifest, OCIManifest, V2ManifestList] \<and>
   ParseManifest testUnmarshal ParseSHA256Digest (testReader testManifestListBytes) =
     ParseManifestV2List testUnmarshal ParseSHA256Digest testManifestListBytes \<and>
   errOf (ParseManifestV2 testUnmarshal ParseSHA256Digest testManifestListBytes) \<noteq> None \<and>
   errOf (ParseOCIManifest testUnmarshal ParseSHA256Digest testManifestListBytes) \<noteq> None \<and>
   errOf (ParseManifestV2List testUnmarshal ParseSHA256Digest testManifestListBytes) = None"
  using ParseManifest_trial_order [of "testReader testManifestListBytes" testUnmarshal ParseSHA256Digest]
  by (simp add: ParseManifest_attempts_cases Parse_test_list testReader_def errOf_def)

section \<open>Bytes that one variant accepts (C4)\<close>

text \<open>
  A parser accepts what the library deserialized under its media type, when that is
  well-formed for its variant and the digest of the descriptor parses.
\<close>

lemma ParseVariant_accepts:
  assumes "um (requestedType v) b = (Some m, desc, None)"
    and "wellFormedAs v m"
    and "pd (Digest desc) = (d, None)"
  shows "ParseVariant v um pd b = (Some m, d, None)"
proof (cases v)
  case V2Manifest
  with assms show ?thesis
    by (cases m) (simp_all add: ParseManifestV2_def)
next
  case OCIManifest
  with assms show ?thesis
    by (cases m) (simp_all add: ParseOCIManifest_def)
next
  case V2ManifestList
  with assms show ?thesis
    by (cases m) (simp_all add: ParseManifestV2List_def)
next
  case OCIIndex
  with assms show ?thesis
    by (simp add: ParseOCIIndex_def)
qed

text \<open>
  The chain: when exactly one parser returns no error, \<open>ParseManifest\<close> returns the result
  of that parser.
\<close>

lemma ParseManifest_chain_unique:
  assumes "failure r = None"
    and "errOf (ParseVariant v um pd (content r)) = None"
    and "\<forall>v'. v' \<noteq> v \<longrightarrow> errOf (ParseVariant v' um pd (content r)) \<noteq> None"
  shows "ParseManifest um pd r = ParseVariant v um pd (content r) \<and>
         (\<exists>desc. um (requestedType v) (content r) = (manifestOf (ParseManifest um pd r), desc, None) \<and>
                 pd (Digest desc) = (digestOf (ParseManifest um pd r), None)) \<and>
         (\<forall>v'. v' \<noteq> v \<longrightarrow>
               manifestOf (ParseVariant v' um pd (content r)) = None \<and>
               digestOf (ParseVariant v' um pd (content r)) = zero_Digest) \<and>
         (\<forall>v' m desc e. um (requestedType v') (content r) = (m, desc, Some e) \<longrightarrow>
               errOf (ParseVariant v' um pd (content r)) \<noteq> None)"
proof -
  have eq: "ParseManifest um pd r = ParseVariant v um pd (content r)"
  proof (cases v)
    case V2Manifest
    with assms(1,2) show ?thesis by (auto simp: ParseManifest_cases)
  next
    case OCIManifest
    moreover from assms(3) OCIManifest have "errOf (ParseVariant V2Manifest um pd (content r)) \<noteq> None"
      by blast
    ultimately show ?thesis using assms(1,2) by (auto simp: ParseManifest_cases)
  next
    case V2ManifestList
    moreover from assms(3) V2ManifestList have "errOf (ParseVariant V2Manifest um pd (content r)) \<noteq> None"
      and "errOf (ParseVariant OCIManifest um pd (content r)) \<noteq> None"
      by blast+
    ultimately show ?thesis using assms(1,2) by (auto simp: ParseManifest_cases)
  next
    case OCIIndex
    moreover from assms(3) OCIIndex have "errOf (ParseVariant V2Manifest um pd (content r)) \<noteq> None"
      and "errOf (ParseVariant OCIManifest um pd (content r)) \<noteq> None"
      and "errOf (ParseVariant V2ManifestList um pd (content r)) \<noteq> None"
      by blast+
    ultimately show ?thesis using assms(1) by (auto simp: ParseManifest_cases)
  qed
  moreover have "\<exists>desc. um (requestedType v) (content r) = (manifestOf (ParseVariant v um pd (content r)), desc, None) \<and>
                 pd (Digest desc) = (digestOf (ParseVariant v um pd (content r)), None)"
    using assms(2) by (rule ParseVariant_success)
  moreover have "\<forall>v'. v' \<noteq> v \<longrightarrow>
               manifestOf (ParseVariant v' um pd (content r)) = None \<and>
               digestOf (ParseVariant v' um pd (content r)) = zero_Digest"
    using assms(3) ParseVariant_rejection by blast
  moreover have "\<forall>v' m desc e. um (requestedType v') (content r) = (m, desc, Some e) \<longrightarrow>
               errOf (ParseVariant v' um pd (content r)) \<noteq> None"
    using ParseVariant_unmarshal_error by blast
  ultimately show ?thesis by simp
qed

text \<open>
  C4. For bytes that are well-formed under exactly one of the four variants,
  \<open>ParseManifest\<close> returns that variant and no other; a declared media type that does not
  match the variant being tried is a parse failure, not a coercion. The library decides
  what is well-formed: it deserializes the bytes under the media type of the variant \<open>v\<close>
  into a manifest \<open>m\<close> of the Go type of \<open>v\<close> with schema version 2, the digest of its
  descriptor parses to \<open>d\<close>, and it refuses the bytes under the media type of every other
  variant. Then \<open>ParseManifest\<close> returns \<open>m\<close> and \<open>d\<close> with a nil error, which is the result of
  the parser of \<open>v\<close>, reached after the parsers before \<open>v\<close> in the order; and the parser of
  every other variant returns an error, a nil manifest and the zero digest.
\<close>

theorem ParseManifest_unique_variant:
  assumes "failure r = None"
    and "um (requestedType v) (content r) = (Some m, desc, None)"
    and "wellFormedAs v m"
    and "pd (Digest desc) = (d, None)"
    and "\<forall>v'. v' \<noteq> v \<longrightarrow> (\<exists>m' desc' e. um (requestedType v') (content r) = (m', desc', Some e))"
  shows "ParseManifest um pd r = (Some m, d, None) \<and>
         ParseVariant v um pd (content r) = (Some m, d, None) \<and>
         (\<forall>v'. v' \<noteq> v \<longrightarrow>
               errOf (ParseVariant v' um pd (content r)) \<noteq> None \<and>
               manifestOf (ParseVariant v' um pd (content r)) = None \<and>
               digestOf (ParseVariant v' um pd (content r)) = zero_Digest) \<and>
         last (ParseManifest_attempts um pd r) = v"
proof -
  have acc: "ParseVariant v um pd (content r) = (Some m, d, None)"
    using assms(2-4) by (rule ParseVariant_accepts)
  then have ok: "errOf (ParseVariant v um pd (content r)) = None"
    by (simp add: errOf_def)
  have others: "\<forall>v'. v' \<noteq> v \<longrightarrow> errOf (ParseVariant v' um pd (content r)) \<noteq> None"
    using assms(5) ParseVariant_unmarshal_error by blast
  have "ParseManifest um pd r = ParseVariant v um pd (content r)"
    using ParseManifest_chain_unique [OF assms(1) ok others] by simp
  with acc have res: "ParseManifest um pd r = (Some m, d, None)"
    by simp
  have rej: "\<forall>v'. v' \<noteq> v \<longrightarrow>
               errOf (ParseVariant v' um pd (content r)) \<noteq> None \<and>
               manifestOf (ParseVariant v' um pd (content r)) = None \<and>
               digestOf (ParseVariant v' um pd (content r)) = zero_Digest"
    using others ParseVariant_rejection by blast
  have tr: "last (ParseManifest_attempts um pd r) = v"
  proof (cases v)
    case V2Manifest
    with assms(1) ok show ?thesis
      by (simp add: ParseManifest_attempts_cases)
  next
    case OCIManifest
    moreover from others OCIManifest have "errOf (ParseVariant V2Manifest um pd (content r)) \<noteq> None"
      by blast
    ultimately show ?thesis using assms(1) ok
      by (auto simp: ParseManifest_attempts_cases)
  next
    case V2ManifestList
    moreover from others V2ManifestList have "errOf (ParseVariant V2Manifest um pd (content r)) \<noteq> None"
      and "errOf (ParseVariant OCIManifest um pd (content r)) \<noteq> None"
      by blast+
    ultimately show ?thesis using assms(1) ok
      by (auto simp: ParseManifest_attempts_cases)
  next
    case OCIIndex
    moreover from others OCIIndex have "errOf (ParseVariant V2Manifest um pd (content r)) \<noteq> None"
      and "errOf (ParseVariant OCIManifest um pd (content r)) \<noteq> None"
      and "errOf (ParseVariant V2ManifestList um pd (content r)) \<noteq> None"
      by blast+
    ultimately show ?thesis using assms(1)
      by (auto simp: ParseManifest_attempts_cases)
  qed
  from res acc rej tr show ?thesis by simp
qed

text \<open>
  The OCI index of the test data declares the index media type: the library refuses it
  under the manifest-list media type and the two manifest media types, and deserializes
  it under the index media type. \<open>ParseManifest\<close> returns the OCI index, after three
  failed attempts.
\<close>

theorem ParseManifest_unique_variant_witness:
  "failure (testReader testOciIndexBytes) = None \<and>
   testUnmarshal ociIndexType testOciIndexBytes =
     (Some (Manifestlist_DeserializedManifestList \<lparr>SchemaVersion = 2, MediaType = ociIndexType\<rparr>
              [testConfig ociManifestType]),
      \<lparr>DescMediaType = ociIndexType, Size = 289,
       Digest = ''sha256:5351994b595de45b707c09b55659a861e0462921247e9a47ff1d185151b964c6''\<rparr>,
      None) \<and>
   wellFormedAs OCIIndex
     (Manifestlist_DeserializedManifestList \<lparr>SchemaVersion = 2, MediaType = ociIndexType\<rparr>
        [testConfig ociManifestType]) \<and>
   snd (snd (testUnmarshal schema2_MediaTypeManifest testOciIndexBytes)) \<noteq> None \<and>
   snd (snd (testUnmarshal ociManifestType testOciIndexBytes)) \<noteq> None \<and>
   snd (snd (testUnmarshal manifestlist_MediaTypeManifestList testOciIndexBytes)) \<noteq> None \<and>
   ParseManifest testUnmarshal ParseSHA256Digest (testReader testOciIndexBytes) =
     (Some (Manifestlist_DeserializedManifestList \<lparr>SchemaVersion = 2, MediaType = ociIndexType\<rparr>
              [testConfig ociManifestType]),
      \<lparr>algo = ''sha256'', hex = ''5351994b595de45b707c09b55659a861e0462921247e9a47ff1d185151b964c6''\<rparr>,
      None) \<and>
   errOf (ParseManifestV2List testUnmarshal ParseSHA256Digest testOciIndexBytes) \<noteq> None \<and>
   ParseManifest_attempts testUnmarshal ParseSHA256Digest (testReader testOciIndexBytes) =
     [V2Manifest, OCIManifest, V2ManifestList, OCIIndex]"
proof -
  let ?r = "testReader testOciIndexBytes"
  let ?m = "Manifestlist_DeserializedManifestList \<lparr>SchemaVersion = 2, MediaType = ociIndexType\<rparr>
              [testConfig ociManifestType]"
  let ?desc = "\<lparr>DescMediaType = ociIndexType, Size = 289,
       Digest = ''sha256:5351994b595de45b707c09b55659a861e0462921247e9a47ff1d185151b964c6''\<rparr>"
  let ?d = "\<lparr>algo = ''sha256'', hex = ''5351994b595de45b707c09b55659a861e0462921247e9a47ff1d185151b964c6''\<rparr>"
  have h1: "failure ?r = None"
    by (simp add: testReader_def)
  have h2: "testUnmarshal (requestedType OCIIndex) (content ?r) = (Some ?m, ?desc, None)"
    by (simp add: testReader_def testUnmarshal_index)
  have h3: "wellFormedAs OCIIndex ?m"
    by simp
  have h4: "ParseSHA256Digest (Digest ?desc) = (?d, None)"
    by (simp add: ParseSHA256Digest_test)
  have h5: "\<forall>v'. v' \<noteq> OCIIndex \<longrightarrow>
              (\<exists>m' desc' e. testUnmarshal (requestedType v') (content ?r) = (m', desc', Some e))"
  proof (intro allI impI)
    fix v' :: Variant
    assume "v' \<noteq> OCIIndex"
    then show "\<exists>m' desc' e. testUnmarshal (requestedType v') (content ?r) = (m', desc', Some e)"
      by (cases v') (simp_all add: testReader_def testUnmarshal_index)
  qed
  have "ParseManifest testUnmarshal ParseSHA256Digest ?r = (Some ?m, ?d, None)"
    using ParseManifest_unique_variant
      [where r = ?r and um = testUnmarshal and v = OCIIndex and m = ?m and desc = ?desc
         and pd = ParseSHA256Digest and d = ?d] h1 h2 h3 h4 h5
    by blast
  with h1 h3 show ?thesis
    by (simp add: testReader_def testUnmarshal_index Parse_test_index
        ParseManifest_attempts_cases errOf_def)
qed

section \<open>All or nothing (C5)\<close>

text \<open>
  C5. Every parse operation (\<open>ParseManifest\<close>, \<open>ParseManifestV2\<close>, \<open>ParseManifestV2List\<close>,
  \<open>ParseOCIManifest\<close>, \<open>ParseOCIIndex\<close>) is all-or-nothing: whenever it returns an error,
  the manifest it returns is nil and the digest is the zero \<open>Digest\<close>, whatever the library
  and the digest parser returned next to their own errors.
\<close>

theorem parse_all_or_nothing:
  "(errOf (ParseManifest um pd r) \<noteq> None \<longrightarrow>
      manifestOf (ParseManifest um pd r) = None \<and> digestOf (ParseManifest um pd r) = zero_Digest) \<and>
   (errOf (ParseManifestV2 um pd b) \<noteq> None \<longrightarrow>
      manifestOf (ParseManifestV2 um pd b) = None \<and> digestOf (ParseManifestV2 um pd b) = zero_Digest) \<and>
   (errOf (ParseManifestV2List um pd b) \<noteq> None \<longrightarrow>
      manifestOf (ParseManifestV2List um pd b) = None \<and> digestOf (ParseManifestV2List um pd b) = zero_Digest) \<and>
   (errOf (ParseOCIManifest um pd b) \<noteq> None \<longrightarrow>
      manifestOf (ParseOCIManifest um pd b) = None \<and> digestOf (ParseOCIManifest um pd b) = zero_Digest) \<and>
   (errOf (ParseOCIIndex um pd b) \<noteq> None \<longrightarrow>
      manifestOf (ParseOCIIndex um pd b) = None \<and> digestOf (ParseOCIIndex um pd b) = zero_Digest)"
proof -
  have "manifestOf (ParseManifest um pd r) = None \<and> digestOf (ParseManifest um pd r) = zero_Digest"
    if err: "errOf (ParseManifest um pd r) \<noteq> None"
  proof (cases "failure r")
    case (Some e)
    then show ?thesis
      by (simp add: ParseManifest_cases result_defs)
  next
    case None
    then obtain v where "ParseManifest um pd r = ParseVariant v um pd (content r)"
      using ParseManifest_some_variant [of r um pd] by blast
    with err ParseVariant_rejection [of v um pd "content r"] show ?thesis by simp
  qed
  then show ?thesis
    using ParseManifestV2_rejection [of um pd b] ParseManifestV2List_rejection [of um pd b]
      ParseOCIManifest_rejection [of um pd b] ParseOCIIndex_rejection [of um pd b]
    by blast
qed

text \<open>On \<open>not json\<close> all five operations return an error, a nil manifest and the zero digest.\<close>

theorem parse_all_or_nothing_witness:
  "errOf (ParseManifest testUnmarshal ParseSHA256Digest (testReader ''not json'')) \<noteq> None \<and>
   errOf (ParseManifestV2 testUnmarshal ParseSHA256Digest ''not json'') \<noteq> None \<and>
   errOf (ParseManifestV2List testUnmarshal ParseSHA256Digest ''not json'') \<noteq> None \<and>
   errOf (ParseOCIManifest testUnmarshal ParseSHA256Digest ''not json'') \<noteq> None \<and>
   errOf (ParseOCIIndex testUnmarshal ParseSHA256Digest ''not json'') \<noteq> None \<and>
   manifestOf (ParseManifest testUnmarshal ParseSHA256Digest (testReader ''not json'')) = None \<and>
   digestOf (ParseManifest testUnmarshal ParseSHA256Digest (testReader ''not json'')) = zero_Digest \<and>
   manifestOf (ParseManifestV2 testUnmarshal ParseSHA256Digest ''not json'') = None \<and>
   digestOf (ParseManifestV2 testUnmarshal ParseSHA256Digest ''not json'') = zero_Digest \<and>
   manifestOf (ParseManifestV2List testUnmarshal ParseSHA256Digest ''not json'') = None \<and>
   digestOf (ParseManifestV2List testUnmarshal ParseSHA256Digest ''not json'') = zero_Digest \<and>
   manifestOf (ParseOCIManifest testUnmarshal ParseSHA256Digest ''not json'') = None \<and>
   digestOf (ParseOCIManifest testUnmarshal ParseSHA256Digest ''not json'') = zero_Digest \<and>
   manifestOf (ParseOCIIndex testUnmarshal ParseSHA256Digest ''not json'') = None \<and>
   digestOf (ParseOCIIndex testUnmarshal ParseSHA256Digest ''not json'') = zero_Digest"
  using parse_all_or_nothing [of testUnmarshal ParseSHA256Digest "testReader ''not json''" "''not json''"]
  by (simp add: ParseManifest_cases ParseVariant_not_json testReader_def result_defs)

section \<open>The references of a manifest (C6)\<close>

text \<open>
  C6. For every manifest variant, \<open>GetManifestReferences\<close> returns the digests of all the
  reference descriptors of the manifest, in the order of the descriptors and whatever
  the variant is, and returns an error with no digest list if the digest string of any
  reference descriptor is malformed. A digest string is malformed when the digest parser
  returns an error for it; the error returned is that of the first such descriptor.
\<close>

theorem GetManifestReferences_flattens:
  "GetManifestReferences pd m =
     (case find (\<lambda>desc. snd (pd (Digest desc)) \<noteq> None) (References m) of
        None \<Rightarrow> (map (\<lambda>desc. fst (pd (Digest desc))) (References m), None)
      | Some bad \<Rightarrow> ([], Some (''parse digest: '' @ the (snd (pd (Digest bad)))))) \<and>
   (References m' = References m \<longrightarrow> GetManifestReferences pd m' = GetManifestReferences pd m)"
  by (simp add: GetManifestReferences_def referencesLoop_find split: option.splits)

text \<open>
  The two references of the Docker manifest of the test data, the same list for an OCI
  manifest with the same references, and the error for a truncated digest.
\<close>

theorem GetManifestReferences_flattens_witness:
  "GetManifestReferences ParseSHA256Digest
     (Schema2_DeserializedManifest \<lparr>SchemaVersion = 2, MediaType = v2ManifestType\<rparr>
        [testConfig ''application/vnd.docker.container.image.v1+json'',
         testLayer ''application/vnd.docker.image.rootfs.diff.tar.gzip'']) =
     ([\<lparr>algo = ''sha256'', hex = ''1a9ec845ee94c202b2d5da74a24f0ed2058318bfa9879fa541efaecba272e86b''\<rparr>,
       \<lparr>algo = ''sha256'', hex = ''62d8908bee94c202b2d35224a221aaa2058318bfa9879fa541efaecba272331b''\<rparr>],
      None) \<and>
   GetManifestReferences ParseSHA256Digest
     (Ocischema_DeserializedManifest \<lparr>SchemaVersion = 2, MediaType = ociManifestType\<rparr>
        [testConfig ''application/vnd.docker.container.image.v1+json'',
         testLayer ''application/vnd.docker.image.rootfs.diff.tar.gzip'']) =
   GetManifestReferences ParseSHA256Digest
     (Schema2_DeserializedManifest \<lparr>SchemaVersion = 2, MediaType = v2ManifestType\<rparr>
        [testConfig ''application/vnd.docker.container.image.v1+json'',
         testLayer ''application/vnd.docker.image.rootfs.diff.tar.gzip'']) \<and>
   GetManifestReferences ParseSHA256Digest
     (Other_Manifest
        [testConfig ''application/vnd.docker.container.image.v1+json'',
         \<lparr>DescMediaType = ''application/vnd.docker.image.rootfs.diff.tar.gzip'', Size = 153263,
          Digest = ''sha256:62d8''\<rparr>,
         testLayer ''application/vnd.docker.image.rootfs.diff.tar.gzip'']) =
     ([], Some ''parse digest: invalid sha256 digest'')"
  using GetManifestReferences_flattens [of ParseSHA256Digest
      "Schema2_DeserializedManifest \<lparr>SchemaVersion = 2, MediaType = v2ManifestType\<rparr>
        [testConfig ''application/vnd.docker.container.image.v1+json'',
         testLayer ''application/vnd.docker.image.rootfs.diff.tar.gzip'']"
      "Ocischema_DeserializedManifest \<lparr>SchemaVersion = 2, MediaType = ociManifestType\<rparr>
        [testConfig ''application/vnd.docker.container.image.v1+json'',
         testLayer ''application/vnd.docker.image.rootfs.diff.tar.gzip'']"]
    GetManifestReferences_flattens [of ParseSHA256Digest
      "Other_Manifest
        [testConfig ''application/vnd.docker.container.image.v1+json'',
         \<lparr>DescMediaType = ''application/vnd.docker.image.rootfs.diff.tar.gzip'', Size = 153263,
          Digest = ''sha256:62d8''\<rparr>,
         testLayer ''application/vnd.docker.image.rootfs.diff.tar.gzip'']"]
  by (simp add: testConfig_def testLayer_def ParseSHA256Digest_test)
     (simp add: ParseSHA256Digest_def isLowerHex_def)

section \<open>Close failures (C7)\<close>

text \<open>
  C7, as claimed: the helper logs and swallows every close error, except that a close
  failure which indicates that data was not durably flushed propagates to the caller as a
  write failure. \<open>Close\<close> has no result, so nothing can propagate: such a failure is
  logged at error level like any other, and what the caller is left with, apart from
  the log, is what a successful close leaves.
\<close>

theorem Close_flush_failure_counterexample:
  "Close (Some testFlushFailure) (True, []) =
     (False, [\<lparr>level = ErrorLevel, message = ''failed to close a closer'',
               errorField = ''close /data/blob: input/output error'', withStack = True\<rparr>]) \<and>
   fst (Close (Some testFlushFailure) (True, [])) = fst (Close (Some (\<lambda>isOpen. (None, False))) (True, []))"
  by (simp add: Close_def testFlushFailure_def)

text \<open>
  C7, amended: the helper never propagates a close failure. It calls the \<open>Close\<close> method
  of the closer once; a nil error logs nothing; every error is logged once and swallowed,
  at debug level exactly when its message is \<open>file already closed\<close> or
  \<open>close: file already closed\<close>, and at error level otherwise.
\<close>

theorem Close_logs_and_swallows:
  "fst (Close (Some c) (w, logged)) = snd (c w) \<and>
   (fst (c w) = None \<longrightarrow> snd (Close (Some c) (w, logged)) = logged) \<and>
   (\<forall>e. fst (c w) = Some e \<longrightarrow>
      (\<exists>entry. snd (Close (Some c) (w, logged)) = logged @ [entry] \<and> errorField entry = e \<and>
         (level entry = DebugLevel) = (e = ''file already closed'' \<or> e = ''close: file already closed'') \<and>
         (level entry = ErrorLevel) = (e \<noteq> ''file already closed'' \<and> e \<noteq> ''close: file already closed'')))"
  by (cases "c w") (auto simp: Close_def split: option.splits)

text \<open>Closing a file that is closed already leaves one debug entry.\<close>

theorem Close_logs_and_swallows_witness:
  "fst (testAlreadyClosed False) = Some ''file already closed'' \<and>
   Close (Some testAlreadyClosed) (False, []) =
     (False, [\<lparr>level = DebugLevel,
               message = ''attempted to close already closed file (this is usually harmless)'',
               errorField = ''file already closed'', withStack = False\<rparr>])"
  using Close_logs_and_swallows [of testAlreadyClosed False "[]"]
  by (simp add: Close_def testAlreadyClosed_def)

section \<open>The algorithm of the digest (C8)\<close>

text \<open>
  C8. Whenever \<open>ParseManifest\<close> or one of the four variant parsers succeeds, the digest
  returned with the manifest has the algorithm \<open>sha256\<close>. The digest comes from
  \<open>core.ParseSHA256Digest\<close>, which is the model \<open>ParseSHA256Digest\<close> here.
\<close>

theorem parsed_digest_is_sha256:
  "(errOf (ParseManifest um ParseSHA256Digest r) = None \<longrightarrow>
      algo (digestOf (ParseManifest um ParseSHA256Digest r)) = ''sha256'') \<and>
   (errOf (ParseManifestV2 um ParseSHA256Digest b) = None \<longrightarrow>
      algo (digestOf (ParseManifestV2 um ParseSHA256Digest b)) = ''sha256'') \<and>
   (errOf (ParseManifestV2List um ParseSHA256Digest b) = None \<longrightarrow>
      algo (digestOf (ParseManifestV2List um ParseSHA256Digest b)) = ''sha256'') \<and>
   (errOf (ParseOCIManifest um ParseSHA256Digest b) = None \<longrightarrow>
      algo (digestOf (ParseOCIManifest um ParseSHA256Digest b)) = ''sha256'') \<and>
   (errOf (ParseOCIIndex um ParseSHA256Digest b) = None \<longrightarrow>
      algo (digestOf (ParseOCIIndex um ParseSHA256Digest b)) = ''sha256'')"
proof -
  have variant: "algo (digestOf (ParseVariant v um ParseSHA256Digest c)) = ''sha256''"
    if "errOf (ParseVariant v um ParseSHA256Digest c) = None" for v c
    using ParseVariant_success [OF that] ParseSHA256Digest_success by blast
  have "algo (digestOf (ParseManifest um ParseSHA256Digest r)) = ''sha256''"
    if ok: "errOf (ParseManifest um ParseSHA256Digest r) = None"
  proof (cases "failure r")
    case (Some e)
    with ok show ?thesis
      by (simp add: ParseManifest_cases result_defs)
  next
    case None
    then obtain v where "ParseManifest um ParseSHA256Digest r = ParseVariant v um ParseSHA256Digest (content r)"
      using ParseManifest_some_variant [of r um ParseSHA256Digest] by blast
    with ok variant [of v "content r"] show ?thesis by simp
  qed
  with variant [of V2Manifest b] variant [of V2ManifestList b] variant [of OCIManifest b]
    variant [of OCIIndex b]
  show ?thesis by simp
qed

text \<open>
  The manifest list of the test data resolves to the manifest-list variant, with a digest
  whose algorithm is \<open>sha256\<close>.
\<close>

theorem parsed_digest_is_sha256_witness:
  "errOf (ParseManifest testUnmarshal ParseSHA256Digest (testReader testManifestListBytes)) = None \<and>
   manifestOf (ParseManifest testUnmarshal ParseSHA256Digest (testReader testManifestListBytes)) =
     Some (Manifestlist_DeserializedManifestList \<lparr>SchemaVersion = 2, MediaType = v2ManifestListType\<rparr>
             [testConfig v2ManifestType]) \<and>
   algo (digestOf (ParseManifest testUnmarshal ParseSHA256Digest (testReader testManifestListBytes))) = ''sha256''"
  using parsed_digest_is_sha256 [of testUnmarshal "testReader testManifestListBytes"]
  by (simp add: ParseManifest_cases Parse_test_list testReader_def result_defs)

section \<open>The supported media types (C9)\<close>

text \<open>
  C9. \<open>GetSupportedManifestTypes\<close> is a constant: the four media types, exactly as the
  specification spells them, separated by commas, in the order Docker manifest, Docker
  manifest list, OCI manifest, OCI index.
\<close>

theorem GetSupportedManifestTypes_value:
  "GetSupportedManifestTypes =
     ''application/vnd.docker.distribution.manifest.v2+json,application/vnd.docker.distribution.manifest.list.v2+json,application/vnd.oci.image.manifest.v1+json,application/vnd.oci.image.index.v1+json''"
  by (simp add: GetSupportedManifestTypes_def v2ManifestType_def v2ManifestListType_def
      ociManifestType_def ociIndexType_def)

section \<open>Closing nothing (C10)\<close>

text \<open>
  C10. \<open>Close\<close> on a nil closer does nothing: the resources and the log are left as they
  were, and the helper returns.
\<close>

theorem Close_nil_noop:
  "Close None (w, logged) = (w, logged)"
  by (simp add: Close_def)

end
